theory Spec2Isabelle
  imports Main
begin

section \<open>Signing and encryption of messages (package messaging)\<close>

text \<open>
  The package signs, verifies, encrypts and decrypts the messages a publisher exchanges.
  Its own code is glue around five libraries: \<^verbatim>\<open>crypto/ecdsa\<close>, \<^verbatim>\<open>encoding/asn1\<close>,
  \<^verbatim>\<open>encoding/base64\<close>, \<^verbatim>\<open>encoding/json\<close> and \<^verbatim>\<open>go-jose.v2\<close>. The libraries are not part of
  the package; the model takes them as a parameter (a record of functions, one field per
  library function the package calls) and embeds the package's functions over it.
\<close>

subsection \<open>Values\<close>

text \<open>A Go \<^verbatim>\<open>string\<close> and a \<^verbatim>\<open>[]byte\<close> are both character lists.\<close>

type_synonym bytes = string

text \<open>A Go \<^verbatim>\<open>error\<close> is its message; the \<^verbatim>\<open>nil\<close> error is \<open>None\<close>.\<close>

type_synonym error = string

text \<open>
  A function of the package returns, or the Go run time stops it with a panic (a method
  called on a nil interface, a nil pointer read, a reflection call on the wrong kind).
\<close>

datatype 'a outcome = Panic | Return 'a

text \<open>
  Keys of \<^verbatim>\<open>crypto/ecdsa\<close>: a public key is a curve (by name) and a point, a private key is
  a public key and the secret scalar. The package handles keys by pointer: a
  \<^verbatim>\<open>*ecdsa.PublicKey\<close> is a \<open>PublicKey option\<close>, \<open>None\<close> the nil pointer.
\<close>

datatype PublicKey = PublicKey string int int

datatype PrivateKey = PrivateKey PublicKey int

text \<open>The pair \<open>(r, s)\<close> of an ECDSA signature, as the package's struct of two big integers.\<close>

datatype ECDSASignature = ECDSASignature int int

text \<open>
  The objects of go-jose: a signer bound to an algorithm and a key, an encrypter bound to a
  content cipher, a key algorithm and a recipient, a parsed or created signed object
  (protected header, payload, signature) and an encrypted object (header, encrypted key,
  initialisation vector, ciphertext, tag). The package never looks inside them.
\<close>

datatype Signer = Signer string "PrivateKey option"

datatype Encrypter = Encrypter string string "PublicKey option"

datatype JSONWebSignature = JSONWebSignature string bytes bytes

datatype JSONWebEncryption = JSONWebEncryption string bytes bytes bytes bytes

text \<open>
  The \<^verbatim>\<open>object interface{}\<close> that a message is unmarshalled into, as far as reflection
  tells its values apart: a pointer to a struct (its fields in declaration order, by Go
  name), a pointer to a value of another kind, or a value that is no pointer. A field holds
  a string, or a value of another kind (kept by its type's name).
\<close>

datatype govalue = GoString string | GoOther string

datatype goobject =
    PtrToStruct "(string \<times> govalue) list"
  | PtrToOther string
  | NotAPointer

text \<open>
  \<^verbatim>\<open>reflect.ValueOf(object).Elem()\<close> panics unless \<open>object\<close> holds a pointer, and
  \<^verbatim>\<open>FieldByName\<close> panics unless the pointee is a struct; on a struct it yields the field, or
  the invalid value (\<open>None\<close>) when the struct has no field of that name.
\<close>

fun reflect_Elem_FieldByName :: "goobject \<Rightarrow> string \<Rightarrow> govalue option outcome" where
  "reflect_Elem_FieldByName (PtrToStruct fields) name = Return (map_of fields name)"
| "reflect_Elem_FieldByName (PtrToOther _) name = Panic"
| "reflect_Elem_FieldByName NotAPointer name = Panic"

text \<open>
  \<^verbatim>\<open>Value.String()\<close> is the string of a string value; on any other kind it does not panic,
  it returns the text \<^verbatim>\<open><T Value>\<close> for the value's type \<open>T\<close>.
\<close>

fun reflect_String :: "govalue \<Rightarrow> string" where
  "reflect_String (GoString s) = s"
| "reflect_String (GoOther T) = ''<'' @ T @ '' Value>''"

subsection \<open>The world outside the package\<close>

text \<open>
  \<^verbatim>\<open>crypto/rand.Reader\<close> is the process-wide random source: the bytes it will deliver next.
  A library function that draws from it takes the source and returns what is left.
\<close>

type_synonym entropy = "nat list"

text \<open>
  The messenger is the transport the signer publishes through. The package sees only
  \<^verbatim>\<open>Publish(address, retained, message)\<close> and the error it answers; what has been handed to
  the transport is recorded in the world, oldest first, next to the random source and the
  lines written to the log.
\<close>

record IMessenger =
  Publish :: "string \<Rightarrow> bool \<Rightarrow> string \<Rightarrow> error option"

record world =
  rand_Reader :: entropy
  transport :: "(string \<times> bool \<times> string) list"
  logrus :: "string list"

subsection \<open>The libraries, as a parameter\<close>

text \<open>
  One field per library function the package calls, with the Go signature: a result
  \<^verbatim>\<open>(T, error)\<close> is a pair, a pointer or interface result is an \<open>option\<close>, and a function
  that reads the random source threads it. Nothing is assumed of the fields here; a theorem
  that needs a library to behave says so in its hypotheses.
\<close>

record library =
  sha256_Sum256 :: "bytes \<Rightarrow> bytes"
  ecdsa_Sign :: "entropy \<Rightarrow> PrivateKey \<Rightarrow> bytes \<Rightarrow> (int \<times> int \<times> error option) \<times> entropy"
  ecdsa_Verify :: "PublicKey \<Rightarrow> bytes \<Rightarrow> int \<Rightarrow> int \<Rightarrow> bool"
  asn1_Marshal :: "ECDSASignature \<Rightarrow> bytes \<times> error option"
  asn1_Unmarshal :: "bytes \<Rightarrow> ECDSASignature \<times> bytes \<times> error option"
  base64_EncodeToString :: "bytes \<Rightarrow> string"
  base64_DecodeString :: "string \<Rightarrow> bytes \<times> error option"
  json_MarshalIndent :: "goobject \<Rightarrow> string \<Rightarrow> string \<Rightarrow> bytes \<times> error option"
  json_Unmarshal :: "bytes \<Rightarrow> goobject \<Rightarrow> goobject \<times> error option"
  jose_NewSigner :: "string \<Rightarrow> PrivateKey option \<Rightarrow> Signer option \<times> error option"
  Signer_Sign :: "Signer \<Rightarrow> entropy \<Rightarrow> bytes \<Rightarrow> (JSONWebSignature option \<times> error option) \<times> entropy"
  JWS_CompactSerialize :: "JSONWebSignature \<Rightarrow> string \<times> error option"
  jose_ParseSigned :: "string \<Rightarrow> JSONWebSignature option \<times> error option"
  JWS_UnsafePayloadWithoutVerification :: "JSONWebSignature \<Rightarrow> bytes"
  JWS_Verify :: "JSONWebSignature \<Rightarrow> PublicKey option \<Rightarrow> bytes \<times> error option"
  jose_NewEncrypter :: "string \<Rightarrow> string \<Rightarrow> PublicKey option \<Rightarrow> Encrypter option \<times> error option"
  Encrypter_Encrypt :: "Encrypter \<Rightarrow> entropy \<Rightarrow> bytes \<Rightarrow> (JSONWebEncryption option \<times> error option) \<times> entropy"
  JWE_CompactSerialize :: "JSONWebEncryption \<Rightarrow> string \<times> error option"
  jose_ParseEncrypted :: "string \<Rightarrow> JSONWebEncryption option \<times> error option"
  JWE_Decrypt :: "JSONWebEncryption \<Rightarrow> PrivateKey option \<Rightarrow> bytes \<times> error option"

subsection \<open>Helper functions for signing and verification\<close>

text \<open>
  \<^verbatim>\<open>CreateEcdsaSignature\<close>: the base64url text of the ASN.1 encoding of an ECDSA signature of
  the payload's SHA-256 digest. Its only result is a string: a nil key and a failed
  \<^verbatim>\<open>ecdsa.Sign\<close> both give the empty string. The error of \<^verbatim>\<open>asn1.Marshal\<close> is not read.
\<close>

definition CreateEcdsaSignature ::
  "library \<Rightarrow> entropy \<Rightarrow> string \<Rightarrow> PrivateKey option \<Rightarrow> string \<times> entropy" where
  "CreateEcdsaSignature lib rnd payload privateKey =
     (case privateKey of
        None \<Rightarrow> ('''', rnd)
      | Some key \<Rightarrow>
          (let hashed = sha256_Sum256 lib payload in
           case ecdsa_Sign lib rnd key hashed of
             ((r, s, Some err), rnd') \<Rightarrow> ('''', rnd')
           | ((r, s, None), rnd') \<Rightarrow>
               (let (sig, err) = asn1_Marshal lib (ECDSASignature r s)
                in (base64_EncodeToString lib sig, rnd'))))"


text \<open>
  \<^verbatim>\<open>CreateJWSSignature\<close>: the compact serialisation of the payload signed with ES256.
  The error of \<^verbatim>\<open>jose.NewSigner\<close> is overwritten before it is read, and \<^verbatim>\<open>Sign\<close> is
  called on the signer whatever it is: on a nil signer that call panics.
\<close>

definition CreateJWSSignature ::
  "library \<Rightarrow> entropy \<Rightarrow> string \<Rightarrow> PrivateKey option \<Rightarrow> ((string \<times> error option) \<times> entropy) outcome" where
  "CreateJWSSignature lib rnd payload privateKey =
     (case jose_NewSigner lib ''ES256'' privateKey of
        (None, err) \<Rightarrow> Panic
      | (Some joseSigner, err) \<Rightarrow>
          (case Signer_Sign lib joseSigner rnd payload of
             ((signedObject, Some err), rnd') \<Rightarrow> Return (('''', Some err), rnd')
           | ((None, None), rnd') \<Rightarrow> Panic
           | ((Some signedObject, None), rnd') \<Rightarrow>
               Return (JWS_CompactSerialize lib signedObject, rnd')))"

text \<open>
  \<^verbatim>\<open>DecryptMessage\<close>: the decrypted message when the text parses as an encrypted token, the
  text itself when it does not. The parse error is returned with the text.
\<close>

definition DecryptMessage ::
  "library \<Rightarrow> string \<Rightarrow> PrivateKey option \<Rightarrow> (bool \<times> string \<times> error option) outcome" where
  "DecryptMessage lib serialized privateKey =
     (let message = serialized in
      case jose_ParseEncrypted lib serialized of
        (None, None) \<Rightarrow> Panic
      | (Some decrypter, None) \<Rightarrow>
          (let (dmessage, err) = JWE_Decrypt lib decrypter privateKey;
               message = dmessage
           in Return (True, message, err))
      | (decrypter, Some err) \<Rightarrow> Return (False, message, Some err))"

text \<open>
  \<^verbatim>\<open>EncryptMessage\<close>: the compact serialisation of the message encrypted for the recipient
  (ECDH-ES, A128CBC-HS256). When the encrypter cannot be made or the encryption fails, the
  message itself is returned with the error. The error of the serialisation is dropped.
\<close>

definition EncryptMessage ::
  "library \<Rightarrow> entropy \<Rightarrow> string \<Rightarrow> PublicKey option \<Rightarrow> ((string \<times> error option) \<times> entropy) outcome" where
  "EncryptMessage lib rnd message publicKey =
     (case jose_NewEncrypter lib ''A128CBC-HS256'' ''ECDH-ES'' publicKey of
        (encrypter, Some err) \<Rightarrow> Return ((message, Some err), rnd)
      | (None, None) \<Rightarrow> Panic
      | (Some encrypter, None) \<Rightarrow>
          (case Encrypter_Encrypt lib encrypter rnd message of
             ((jwe, Some err), rnd') \<Rightarrow> Return ((message, Some err), rnd')
           | ((None, None), rnd') \<Rightarrow> Panic
           | ((Some jwe, None), rnd') \<Rightarrow>
               (let (serialized, _) = JWE_CompactSerialize lib jwe
                in Return ((serialized, None), rnd'))))"

text \<open>\<^verbatim>\<open>VerifyJWSMessage\<close>: the payload of a signed token, verified with the given key.\<close>

definition VerifyJWSMessage ::
  "library \<Rightarrow> string \<Rightarrow> PublicKey option \<Rightarrow> (string \<times> error option) outcome" where
  "VerifyJWSMessage lib message publicKey =
     (case jose_ParseSigned lib message of
        (jwsSignature, Some err) \<Rightarrow> Return ('''', Some err)
      | (None, None) \<Rightarrow> Panic
      | (Some jwsSignature, None) \<Rightarrow> Return (JWS_Verify lib jwsSignature publicKey))"

text \<open>
  \<^verbatim>\<open>VerifySignature\<close>: the result is the object after unmarshalling, the flag
  \<open>isSigned\<close> and the error. A text that does not parse as a signed token is unmarshalled
  directly. Otherwise the payload is unmarshalled without verification, the sender is read
  by reflection from the field \<open>Sender\<close>, or from \<open>Address\<close> when the object has no field
  \<open>Sender\<close>, and the signature is verified with the key the lookup gives for the sender.
\<close>

definition VerifySignature ::
  "library \<Rightarrow> string \<Rightarrow> goobject \<Rightarrow> (string \<Rightarrow> PublicKey option) option
     \<Rightarrow> (goobject \<times> bool \<times> error option) outcome" where
  "VerifySignature lib rawMessage object getPublicKey =
     (case jose_ParseSigned lib rawMessage of
        (jwsSignature, Some err) \<Rightarrow>
          (let (object', err) = json_Unmarshal lib rawMessage object
           in Return (object', False, err))
      | (None, None) \<Rightarrow> Panic
      | (Some jwsSignature, None) \<Rightarrow>
          (let payload = JWS_UnsafePayloadWithoutVerification lib jwsSignature in
           case json_Unmarshal lib payload object of
             (object', Some err) \<Rightarrow> Return (object', True, Some err)
           | (object', None) \<Rightarrow>
               (case (case reflect_Elem_FieldByName object' ''Sender'' of
                        Panic \<Rightarrow> Panic
                      | Return (Some reflSender) \<Rightarrow> Return (Some reflSender)
                      | Return None \<Rightarrow> reflect_Elem_FieldByName object' ''Address'') of
                  Panic \<Rightarrow> Panic
                | Return None \<Rightarrow>
                    Return (object', False,
                      Some ''VerifySender: object doesn't have a Sender or Address field'')
                | Return (Some reflSender) \<Rightarrow>
                    (let sender = reflect_String reflSender in
                     if sender = '''' then
                       Return (object', True,
                         Some ''VerifySender: Missing sender information in message'')
                     else
                       (case getPublicKey of
                          None \<Rightarrow>
                            Return (object', True,
                              Some (''VerifySender: Missing method to get public key for sender ''
                                @ sender))
                        | Some getPublicKey \<Rightarrow>
                            (case getPublicKey sender of
                               None \<Rightarrow>
                                 Return (object', True,
                                   Some (''VerifySender: No public key available for sender ''
                                     @ sender))
                             | Some publicKey \<Rightarrow>
                                 (let (_, err) = JWS_Verify lib jwsSignature (Some publicKey)
                                  in Return (object', True, err))))))))"

subsection \<open>The message signer\<close>

text \<open>
  \<^verbatim>\<open>MessageSigner\<close> holds the key lookup, the messenger (an interface value, nil is
  \<open>None\<close>), the flag that turns signing of outgoing messages on, and the signing key.
\<close>

record MessageSigner =
  getPublicKey :: "(string \<Rightarrow> PublicKey option) option"
  messenger :: "IMessenger option"
  signMessages :: bool
  signingKey :: "PrivateKey option"

definition NewMessageSigner ::
  "bool \<Rightarrow> (string \<Rightarrow> PublicKey option) option \<Rightarrow> IMessenger option \<Rightarrow> PrivateKey option
     \<Rightarrow> MessageSigner" where
  "NewMessageSigner signMessages' getPublicKey' messenger' signingKey' =
     \<lparr>getPublicKey = getPublicKey', messenger = messenger',
      signMessages = signMessages', signingKey = signingKey'\<rparr>"

definition VerifySignedMessage ::
  "library \<Rightarrow> MessageSigner \<Rightarrow> string \<Rightarrow> goobject \<Rightarrow> (goobject \<times> bool \<times> error option) outcome" where
  "VerifySignedMessage lib signer rawMessage object =
     VerifySignature lib rawMessage object (getPublicKey signer)"

text \<open>
  \<^verbatim>\<open>signer.messenger.Publish(address, retained, message)\<close>: the message is handed to the
  transport and the transport's error comes back; on a nil messenger the call panics.
\<close>

definition messenger_Publish ::
  "IMessenger option \<Rightarrow> world \<Rightarrow> string \<Rightarrow> bool \<Rightarrow> string \<Rightarrow> (error option \<times> world) outcome" where
  "messenger_Publish m w address retained message =
     (case m of
        None \<Rightarrow> Panic
      | Some m' \<Rightarrow>
          Return (Publish m' address retained message,
                  w\<lparr>transport := transport w @ [(address, retained, message)]\<rparr>))"

text \<open>
  \<^verbatim>\<open>PublishEncrypted\<close>: signs the payload when signing is on, then encrypts, then publishes.
  The error of the signing and the error of the encryption are both overwritten before
  they are read; the error returned is the transport's.
\<close>

definition PublishEncrypted ::
  "library \<Rightarrow> MessageSigner \<Rightarrow> world \<Rightarrow> string \<Rightarrow> bool \<Rightarrow> string \<Rightarrow> PublicKey option
     \<Rightarrow> (error option \<times> world) outcome" where
  "PublishEncrypted lib signer w address retained payload publicKey =
     (case (if signMessages signer then
              (case CreateJWSSignature lib (rand_Reader w) payload (signingKey signer) of
                 Panic \<Rightarrow> Panic
               | Return ((message, err), rnd') \<Rightarrow> Return (message, rnd'))
            else Return (payload, rand_Reader w)) of
        Panic \<Rightarrow> Panic
      | Return (message, rnd') \<Rightarrow>
          (case EncryptMessage lib rnd' message publicKey of
             Panic \<Rightarrow> Panic
           | Return ((emessage, err), rnd'') \<Rightarrow>
               messenger_Publish (messenger signer) (w\<lparr>rand_Reader := rnd''\<rparr>)
                 address retained emessage))"

text \<open>
  \<^verbatim>\<open>PublishSigned\<close>: signs the payload when signing is on and publishes the result. An
  error of the signing is written to the log; the message returned with it is published
  all the same, and the error returned is the transport's.
\<close>

definition PublishSigned ::
  "library \<Rightarrow> MessageSigner \<Rightarrow> world \<Rightarrow> string \<Rightarrow> bool \<Rightarrow> string
     \<Rightarrow> (error option \<times> world) outcome" where
  "PublishSigned lib signer w address retained payload =
     (case (if signMessages signer then
              (case CreateJWSSignature lib (rand_Reader w) payload (signingKey signer) of
                 Panic \<Rightarrow> Panic
               | Return ((message, Some err), rnd') \<Rightarrow>
                   Return (message,
                     w\<lparr>rand_Reader := rnd',
                       logrus := logrus w @
                         [''Publisher.publishMessage: Error signing message for address ''
                            @ address @ '': '' @ err]\<rparr>)
               | Return ((message, None), rnd') \<Rightarrow> Return (message, w\<lparr>rand_Reader := rnd'\<rparr>))
            else Return (payload, w)) of
        Panic \<Rightarrow> Panic
      | Return (message, w') \<Rightarrow>
          messenger_Publish (messenger signer) w' address retained message)"

text \<open>
  \<^verbatim>\<open>PublishObject\<close>: marshals the object and publishes it, encrypted when an encryption
  key is given. A marshalling error is logged and returned; nothing is published then.
\<close>

definition PublishObject ::
  "library \<Rightarrow> MessageSigner \<Rightarrow> world \<Rightarrow> string \<Rightarrow> bool \<Rightarrow> goobject \<Rightarrow> PublicKey option
     \<Rightarrow> (error option \<times> world) outcome" where
  "PublishObject lib signer w address retained object encryptionKey =
     (case json_MarshalIndent lib object '' '' '' '' of
        (payload, Some err) \<Rightarrow>
          Return (Some err,
            w\<lparr>logrus := logrus w @
                [''Publisher.publishMessage: Error marshalling message for address ''
                   @ address @ '': '' @ err]\<rparr>)
      | (payload, None) \<Rightarrow>
          (case encryptionKey of
             Some key \<Rightarrow> PublishEncrypted lib signer w address retained payload encryptionKey
           | None \<Rightarrow> PublishSigned lib signer w address retained payload))"

subsection \<open>A small instance of the libraries\<close>

text \<open>
  To run the model on concrete messages the libraries need values. \<open>toy_library\<close> is a
  small executable instance with the shape of the real ones and none of their strength:
  tokens carry their parts in clear, separated by dots; the group is the integers modulo 11
  with generator 7, so the public point of the secret \<open>d\<close> is \<open>7 * d mod 11\<close>; a digest is
  the last eight bytes; numbers are written in unary. It fails where the real libraries
  fail: on a nil key, on a key of the wrong curve, on an exhausted random source, on a text
  of the wrong shape.
\<close>

definition toy_Sum256 :: "bytes \<Rightarrow> bytes" where
  "toy_Sum256 p = take 8 (rev p)"

definition toy_scalar :: "bytes \<Rightarrow> int" where
  "toy_scalar h = int (sum_list (map of_char h)) mod 11"

fun toy_point :: "PrivateKey \<Rightarrow> int" where
  "toy_point (PrivateKey pub d) = (7 * d) mod 11"

fun toy_ecdsa_Sign :: "entropy \<Rightarrow> PrivateKey \<Rightarrow> bytes \<Rightarrow> (int \<times> int \<times> error option) \<times> entropy" where
  "toy_ecdsa_Sign [] key h = ((0, 0, Some ''EOF''), [])"
| "toy_ecdsa_Sign (k # rnd) (PrivateKey pub d) h =
     (((7 * int k) mod 11, (int k + toy_scalar h * d) mod 11, None), rnd)"

fun toy_ecdsa_Verify :: "PublicKey \<Rightarrow> bytes \<Rightarrow> int \<Rightarrow> int \<Rightarrow> bool" where
  "toy_ecdsa_Verify (PublicKey curve x y) h r s =
     ((7 * s) mod 11 = (r + toy_scalar h * x) mod 11)"

definition unary :: "int \<Rightarrow> string" where
  "unary n = replicate (nat n) CHR ''I''"

definition is_I :: "char \<Rightarrow> bool" where
  "is_I c = (c = CHR ''I'')"

fun toy_asn1_Marshal :: "ECDSASignature \<Rightarrow> bytes \<times> error option" where
  "toy_asn1_Marshal (ECDSASignature r s) = (unary r @ '':'' @ unary s, None)"

definition toy_asn1_Unmarshal :: "bytes \<Rightarrow> ECDSASignature \<times> bytes \<times> error option" where
  "toy_asn1_Unmarshal b =
     (case dropWhile is_I b of
        [] \<Rightarrow> (ECDSASignature 0 0, b, Some ''asn1: syntax error: data truncated'')
      | c # cs \<Rightarrow>
          if c = CHR '':'' then
            (ECDSASignature (int (length (takeWhile is_I b))) (int (length (takeWhile is_I cs))),
             dropWhile is_I cs, None)
          else (ECDSASignature 0 0, b, Some ''asn1: structure error''))"

definition toy_base64_EncodeToString :: "bytes \<Rightarrow> string" where
  "toy_base64_EncodeToString b = map (\<lambda>c. if c = CHR '':'' then CHR ''-'' else c) b"

definition toy_base64_DecodeString :: "string \<Rightarrow> bytes \<times> error option" where
  "toy_base64_DecodeString s =
     (if list_all (\<lambda>c. c \<in> set
            ''ABCDEFGHIJKLMNOPQRSTUVWXYZabcdefghijklmnopqrstuvwxyz0123456789-_='') s
      then (map (\<lambda>c. if c = CHR ''-'' then CHR '':'' else c) s, None)
      else ('''', Some ''illegal base64 data''))"

text \<open>JSON, for flat objects of string members: a scanner over the characters.\<close>

datatype jmode =
  JStart | JKey | JInKey string | JColon string | JValue string | JInValue string string
  | JNext | JDone | JFail

definition json_ws :: "char \<Rightarrow> bool" where
  "json_ws c = (c = CHR '' '' \<or> c = CHR 0x0A)"

definition json_quote :: char where
  "json_quote = CHR 0x22"

fun json_step :: "jmode \<times> (string \<times> string) list \<Rightarrow> char \<Rightarrow> jmode \<times> (string \<times> string) list" where
  "json_step (JStart, acc) c =
     (if json_ws c then (JStart, acc) else if c = CHR ''{'' then (JKey, acc) else (JFail, acc))"
| "json_step (JKey, acc) c =
     (if json_ws c then (JKey, acc) else if c = json_quote then (JInKey [], acc)
      else if c = CHR ''}'' then (JDone, acc) else (JFail, acc))"
| "json_step (JInKey k, acc) c =
     (if c = json_quote then (JColon k, acc) else (JInKey (k @ [c]), acc))"
| "json_step (JColon k, acc) c =
     (if json_ws c then (JColon k, acc) else if c = CHR '':'' then (JValue k, acc)
      else (JFail, acc))"
| "json_step (JValue k, acc) c =
     (if json_ws c then (JValue k, acc) else if c = json_quote then (JInValue k [], acc)
      else (JFail, acc))"
| "json_step (JInValue k v, acc) c =
     (if c = json_quote then (JNext, acc @ [(k, v)]) else (JInValue k (v @ [c]), acc))"
| "json_step (JNext, acc) c =
     (if json_ws c then (JNext, acc) else if c = CHR '','' then (JKey, acc)
      else if c = CHR ''}'' then (JDone, acc) else (JFail, acc))"
| "json_step (JDone, acc) c = (if json_ws c then (JDone, acc) else (JFail, acc))"
| "json_step (JFail, acc) c = (JFail, acc)"

definition json_members :: "bytes \<Rightarrow> (string \<times> string) list option" where
  "json_members data =
     (case foldl json_step (JStart, []) data of
        (JDone, acc) \<Rightarrow> Some acc
      | (mode, acc) \<Rightarrow> None)"

definition lower :: "char \<Rightarrow> char" where
  "lower c =
     (case map_of (zip ''ABCDEFGHIJKLMNOPQRSTUVWXYZ'' ''abcdefghijklmnopqrstuvwxyz'') c of
        Some l \<Rightarrow> l
      | None \<Rightarrow> c)"

fun json_set_field :: "(string \<times> string) list \<Rightarrow> string \<times> govalue \<Rightarrow> string \<times> govalue" where
  "json_set_field members (name, GoString old) =
     (case map_of members (map lower name) of
        Some v \<Rightarrow> (name, GoString v)
      | None \<Rightarrow> (name, GoString old))"
| "json_set_field members (name, GoOther T) = (name, GoOther T)"

fun toy_json_Unmarshal :: "bytes \<Rightarrow> goobject \<Rightarrow> goobject \<times> error option" where
  "toy_json_Unmarshal data NotAPointer = (NotAPointer, Some ''json: Unmarshal(non-pointer)'')"
| "toy_json_Unmarshal data (PtrToOther old) =
     (case json_members data of
        None \<Rightarrow> (PtrToOther old, Some ''invalid character looking for beginning of value'')
      | Some members \<Rightarrow> (PtrToOther data, None))"
| "toy_json_Unmarshal data (PtrToStruct fs) =
     (case json_members data of
        None \<Rightarrow> (PtrToStruct fs, Some ''invalid character looking for beginning of value'')
      | Some members \<Rightarrow> (PtrToStruct (map (json_set_field members) fs), None))"

fun json_member_line :: "string \<Rightarrow> string \<Rightarrow> string \<times> govalue \<Rightarrow> string" where
  "json_member_line prefix indent (name, GoString v) =
     prefix @ indent @ [json_quote] @ map lower name @ [json_quote] @ '': ''
       @ [json_quote] @ v @ [json_quote]"
| "json_member_line prefix indent (name, GoOther T) =
     prefix @ indent @ [json_quote] @ map lower name @ [json_quote] @ '': null''"

fun json_join :: "string list \<Rightarrow> string" where
  "json_join [] = []"
| "json_join [l] = l"
| "json_join (l # ls) = l @ [CHR '','', CHR 0x0A] @ json_join ls"

fun toy_json_MarshalIndent :: "goobject \<Rightarrow> string \<Rightarrow> string \<Rightarrow> bytes \<times> error option" where
  "toy_json_MarshalIndent (PtrToStruct fs) prefix indent =
     (''{'' @ [CHR 0x0A] @ json_join (map (json_member_line prefix indent) fs)
        @ [CHR 0x0A] @ prefix @ ''}'', None)"
| "toy_json_MarshalIndent (PtrToOther text) prefix indent = (text, None)"
| "toy_json_MarshalIndent NotAPointer prefix indent = ('''', Some ''json: unsupported type'')"

text \<open>
  Signed tokens: \<open>header.payload.signature\<close> with the header \<open>ES256\<close>. A text is split at
  its first and at its last dot, so a payload may hold dots of its own.
\<close>

definition not_dot :: "char \<Rightarrow> bool" where
  "not_dot c = (c \<noteq> CHR ''.'')"

definition toy_NewSigner :: "string \<Rightarrow> PrivateKey option \<Rightarrow> Signer option \<times> error option" where
  "toy_NewSigner alg key =
     (case key of
        None \<Rightarrow> (None, Some ''invalid private key'')
      | Some k \<Rightarrow> (Some (Signer alg key), None))"

fun toy_Sign :: "Signer \<Rightarrow> entropy \<Rightarrow> bytes \<Rightarrow> (JSONWebSignature option \<times> error option) \<times> entropy" where
  "toy_Sign (Signer alg None) rnd payload = ((None, Some ''invalid private key''), rnd)"
| "toy_Sign (Signer alg (Some (PrivateKey (PublicKey curve x y) d))) rnd payload =
     (if curve \<noteq> ''P-256'' then
        ((None, Some ''square/go-jose: expected 256 bit key''), rnd)
      else
        (case toy_ecdsa_Sign rnd (PrivateKey (PublicKey curve x y) d)
                (toy_Sum256 (alg @ ''.'' @ payload)) of
           ((r, s, Some err), rnd') \<Rightarrow> ((None, Some err), rnd')
         | ((r, s, None), rnd') \<Rightarrow>
             ((Some (JSONWebSignature alg payload
                       (toy_base64_EncodeToString (fst (toy_asn1_Marshal (ECDSASignature r s))))),
               None), rnd')))"

fun toy_JWS_CompactSerialize :: "JSONWebSignature \<Rightarrow> string \<times> error option" where
  "toy_JWS_CompactSerialize (JSONWebSignature header payload signature) =
     (header @ ''.'' @ payload @ ''.'' @ signature, None)"

definition toy_ParseSigned :: "string \<Rightarrow> JSONWebSignature option \<times> error option" where
  "toy_ParseSigned text =
     (case dropWhile not_dot text of
        [] \<Rightarrow> (None, Some ''square/go-jose: compact JWS format must have three parts'')
      | dot # body \<Rightarrow>
          (case dropWhile not_dot (rev body) of
             [] \<Rightarrow> (None, Some ''square/go-jose: compact JWS format must have three parts'')
           | dot' # payload_reversed \<Rightarrow>
               if takeWhile not_dot text = ''ES256'' then
                 (Some (JSONWebSignature ''ES256'' (rev payload_reversed)
                          (rev (takeWhile not_dot (rev body)))), None)
               else (None, Some ''square/go-jose: unsupported protected header'')))"

fun toy_UnsafePayloadWithoutVerification :: "JSONWebSignature \<Rightarrow> bytes" where
  "toy_UnsafePayloadWithoutVerification (JSONWebSignature header payload signature) = payload"

fun toy_JWS_Verify :: "JSONWebSignature \<Rightarrow> PublicKey option \<Rightarrow> bytes \<times> error option" where
  "toy_JWS_Verify jws None = ('''', Some ''square/go-jose: error in cryptographic primitive'')"
| "toy_JWS_Verify (JSONWebSignature header payload signature) (Some key) =
     (case toy_base64_DecodeString signature of
        (der, Some err) \<Rightarrow> ('''', Some ''square/go-jose: error in cryptographic primitive'')
      | (der, None) \<Rightarrow>
          (case toy_asn1_Unmarshal der of
             (rs, rest, Some err) \<Rightarrow> ('''', Some ''square/go-jose: error in cryptographic primitive'')
           | (ECDSASignature r s, rest, None) \<Rightarrow>
               if toy_ecdsa_Verify key (toy_Sum256 (header @ ''.'' @ payload)) r s
               then (payload, None)
               else ('''', Some ''square/go-jose: error in cryptographic primitive'')))"

text \<open>
  Encrypted tokens: \<open>header.key.iv.ciphertext.tag\<close> with the header \<open>ECDH-ES\<close> and an empty
  key part. The ciphertext is the message reversed, the initialisation vector is the next
  byte of the random source, and the tag names the recipient's point: only the private key
  of that point opens the token. A public key is on the curve when its first coordinate is
  below 11 and its second is 0; as in go-jose, no encrypter is made for any other.
\<close>

definition toy_NewEncrypter ::
  "string \<Rightarrow> string \<Rightarrow> PublicKey option \<Rightarrow> Encrypter option \<times> error option" where
  "toy_NewEncrypter enc alg key =
     (case key of
        None \<Rightarrow> (None, Some ''invalid public key'')
      | Some (PublicKey curve x y) \<Rightarrow>
          if 0 \<le> x \<and> x < 11 \<and> y = 0 then (Some (Encrypter enc alg key), None)
          else (None, Some ''invalid public key''))"

fun toy_Encrypt ::
  "Encrypter \<Rightarrow> entropy \<Rightarrow> bytes \<Rightarrow> (JSONWebEncryption option \<times> error option) \<times> entropy" where
  "toy_Encrypt (Encrypter enc alg None) rnd message = ((None, Some ''invalid public key''), rnd)"
| "toy_Encrypt (Encrypter enc alg (Some key)) [] message = ((None, Some ''EOF''), [])"
| "toy_Encrypt (Encrypter enc alg (Some (PublicKey curve x y))) (k # rnd) message =
     ((Some (JSONWebEncryption alg '''' (unary (int k)) (rev message) (unary x)), None), rnd)"

fun toy_JWE_CompactSerialize :: "JSONWebEncryption \<Rightarrow> string \<times> error option" where
  "toy_JWE_CompactSerialize (JSONWebEncryption header key iv ciphertext tag) =
     (header @ ''.'' @ key @ ''.'' @ iv @ ''.'' @ ciphertext @ ''.'' @ tag, None)"

definition toy_ParseEncrypted :: "string \<Rightarrow> JSONWebEncryption option \<times> error option" where
  "toy_ParseEncrypted text =
     (case dropWhile not_dot text of
        [] \<Rightarrow> (None, Some ''square/go-jose: compact JWE format must have five parts'')
      | dot1 # rest1 \<Rightarrow>
     (case dropWhile not_dot rest1 of
        [] \<Rightarrow> (None, Some ''square/go-jose: compact JWE format must have five parts'')
      | dot2 # rest2 \<Rightarrow>
     (case dropWhile not_dot rest2 of
        [] \<Rightarrow> (None, Some ''square/go-jose: compact JWE format must have five parts'')
      | dot3 # body \<Rightarrow>
     (case dropWhile not_dot (rev body) of
        [] \<Rightarrow> (None, Some ''square/go-jose: compact JWE format must have five parts'')
      | dot4 # ciphertext_reversed \<Rightarrow>
          if takeWhile not_dot text = ''ECDH-ES'' then
            (Some (JSONWebEncryption ''ECDH-ES'' (takeWhile not_dot rest1)
                     (takeWhile not_dot rest2) (rev ciphertext_reversed)
                     (rev (takeWhile not_dot (rev body)))), None)
          else (None, Some ''square/go-jose: unsupported algorithm'')))))"

fun toy_JWE_Decrypt :: "JSONWebEncryption \<Rightarrow> PrivateKey option \<Rightarrow> bytes \<times> error option" where
  "toy_JWE_Decrypt jwe None = ('''', Some ''square/go-jose: error in cryptographic primitive'')"
| "toy_JWE_Decrypt (JSONWebEncryption header key iv ciphertext tag) (Some priv) =
     (if unary (toy_point priv) = tag then (rev ciphertext, None)
      else ('''', Some ''square/go-jose: error in cryptographic primitive''))"

definition toy_library :: library where
  "toy_library =
     \<lparr>sha256_Sum256 = toy_Sum256,
      ecdsa_Sign = toy_ecdsa_Sign,
      ecdsa_Verify = toy_ecdsa_Verify,
      asn1_Marshal = toy_asn1_Marshal,
      asn1_Unmarshal = toy_asn1_Unmarshal,
      base64_EncodeToString = toy_base64_EncodeToString,
      base64_DecodeString = toy_base64_DecodeString,
      json_MarshalIndent = toy_json_MarshalIndent,
      json_Unmarshal = toy_json_Unmarshal,
      jose_NewSigner = toy_NewSigner,
      Signer_Sign = toy_Sign,
      JWS_CompactSerialize = toy_JWS_CompactSerialize,
      jose_ParseSigned = toy_ParseSigned,
      JWS_UnsafePayloadWithoutVerification = toy_UnsafePayloadWithoutVerification,
      JWS_Verify = toy_JWS_Verify,
      jose_NewEncrypter = toy_NewEncrypter,
      Encrypter_Encrypt = toy_Encrypt,
      JWE_CompactSerialize = toy_JWE_CompactSerialize,
      jose_ParseEncrypted = toy_ParseEncrypted,
      JWE_Decrypt = toy_JWE_Decrypt\<rparr>"

text \<open>
  The publisher \<open>pub1\<close> of the example scenario and a second publisher \<open>pub2\<close>: their
  keys, a lookup that knows \<open>pub1\<close>'s device, a messenger whose transport never fails, and
  a world with a few random bytes left.
\<close>

definition pub1PrivateKey :: PrivateKey where
  "pub1PrivateKey = PrivateKey (PublicKey ''P-256'' 10 0) 3"

definition pub1PublicKey :: PublicKey where
  "pub1PublicKey = PublicKey ''P-256'' 10 0"

definition pub2PrivateKey :: PrivateKey where
  "pub2PrivateKey = PrivateKey (PublicKey ''P-256'' 2 0) 5"

definition pub2PublicKey :: PublicKey where
  "pub2PublicKey = PublicKey ''P-256'' 2 0"

definition resolver :: "string \<Rightarrow> PublicKey option" where
  "resolver address = (if address = ''zoneA/pub1/dev7'' then Some pub1PublicKey else None)"

definition quiet_messenger :: IMessenger where
  "quiet_messenger = \<lparr>Publish = (\<lambda>address retained message. None)\<rparr>"

definition world0 :: world where
  "world0 = \<lparr>rand_Reader = [4, 9, 2, 6], transport = [], logrus = []\<rparr>"

text \<open>The message of the scenario, and the empty value of its type to unmarshal into.\<close>

definition message7 :: goobject where
  "message7 = PtrToStruct [(''Sender'', GoString ''zoneA/pub1/dev7''), (''Value'', GoString ''42'')]"

definition target7 :: goobject where
  "target7 = PtrToStruct [(''Sender'', GoString ''''), (''Value'', GoString '''')]"

text \<open>
  A signing key on another curve (signing with ES256 refuses it), and a recipient key that
  is not on the curve.
\<close>

definition p384PrivateKey :: PrivateKey where
  "p384PrivateKey = PrivateKey (PublicKey ''P-384'' 6 0) 4"

definition offCurvePublicKey :: PublicKey where
  "offCurvePublicKey = PublicKey ''P-256'' 2 5"

text \<open>
  The payloads of the scenario: the message of device 7, a message whose type has neither
  a sender nor an address, and a configuration message whose sender was left empty. Each
  token is the payload signed by \<open>pub1\<close> with the random byte 4.
\<close>

definition payload7 :: string where
  \<open>payload7 = ''{"sender":"zoneA/pub1/dev7","value":"42"}''\<close>

definition token7 :: string where
  "token7 = ''ES256.'' @ payload7 @ ''.IIIIII-IIIII''"

definition payloadV :: string where
  \<open>payloadV = ''{"value":"42"}''\<close>

definition tokenV :: string where
  "tokenV = ''ES256.'' @ payloadV @ ''.IIIIII-IIIII''"

definition targetV :: goobject where
  "targetV = PtrToStruct [(''Value'', GoString '''')]"

definition payloadA :: string where
  \<open>payloadA = ''{"address":"zoneA/pub1/dev7","sender":"","value":"42"}''\<close>

definition tokenA :: string where
  "tokenA = ''ES256.'' @ payloadA @ ''.IIIIII-IIIII''"

definition targetA :: goobject where
  "targetA =
     PtrToStruct [(''Address'', GoString ''''), (''Sender'', GoString ''''), (''Value'', GoString '''')]"

text \<open>
  What \<^verbatim>\<open>VerifySignature\<close> answers once the field holding the sender has been read (from
  \<^verbatim>\<open>sender := reflSender.String()\<close> to the end of the function), as a function of that
  field: used to state which field the sender is taken from.
\<close>

definition verify_for_sender ::
  "library \<Rightarrow> JSONWebSignature \<Rightarrow> goobject \<Rightarrow> (string \<Rightarrow> PublicKey option) option \<Rightarrow> govalue
     \<Rightarrow> (goobject \<times> bool \<times> error option) outcome" where
  "verify_for_sender lib jwsSignature object' lookup reflSender =
     (let sender = reflect_String reflSender in
      if sender = '''' then
        Return (object', True, Some ''VerifySender: Missing sender information in message'')
      else
        (case lookup of
           None \<Rightarrow>
             Return (object', True,
               Some (''VerifySender: Missing method to get public key for sender '' @ sender))
         | Some resolve \<Rightarrow>
             (case resolve sender of
                None \<Rightarrow>
                  Return (object', True,
                    Some (''VerifySender: No public key available for sender '' @ sender))
              | Some publicKey \<Rightarrow>
                  Return (object', True, snd (JWS_Verify lib jwsSignature (Some publicKey))))))"

text \<open>
  The scenario's payload encrypted for \<open>pub2\<close> as it is (random byte 4), and its signed
  token encrypted for \<open>pub2\<close> (random byte 9, the byte after the one the signature took).
\<close>

definition wireU :: string where
  "wireU = ''ECDH-ES..IIII.'' @ rev payload7 @ ''.II''"

definition wire7 :: string where
  "wire7 = ''ECDH-ES..IIIIIIIII.'' @ rev token7 @ ''.II''"

text \<open>A message type that has an address and no sender.\<close>

definition targetD :: goobject where
  "targetD = PtrToStruct [(''Address'', GoString ''''), (''Value'', GoString '''')]"

section \<open>Properties\<close>

subsection \<open>Signing and opening a message\<close>

text \<open>
  C1. A message that carries a sender, signed with \<^verbatim>\<open>CreateJWSSignature\<close> under a private
  key and opened with \<^verbatim>\<open>VerifySignature\<close> under a lookup that maps the sender to the
  matching public key, comes back as it was, flagged as signed, with no error.

  The libraries do the cryptography, so the theorem holds for every library that keeps its
  contract on this message: it makes a signer for the private key and signs the payload,
  the token it serialises parses back to an object with the same payload, the signature
  verifies under the public key (this is what makes the two keys a pair), and the payload
  unmarshals into the target as the message \<open>m\<close> (the payload is a serialisation of \<open>m\<close>).
  The message carries a sender: its struct has a field \<open>Sender\<close> holding a string that is
  not empty.
\<close>

theorem signed_round_trip:
  assumes signer: "jose_NewSigner lib ''ES256'' (Some priv) = (Some joseSigner, nerr)"
    and sign: "Signer_Sign lib joseSigner rnd payload = ((Some signedObject, None), rnd')"
    and serialize: "JWS_CompactSerialize lib signedObject = (token, None)"
    and parse: "jose_ParseSigned lib token = (Some jwsSignature, None)"
    and payload: "JWS_UnsafePayloadWithoutVerification lib jwsSignature = payload"
    and verify: "JWS_Verify lib jwsSignature (Some pub) = (verified, None)"
    and unmarshal: "json_Unmarshal lib payload target = (PtrToStruct m, None)"
    and sender: "map_of m ''Sender'' = Some (GoString sender)" "sender \<noteq> ''''"
    and lookup: "resolve sender = Some pub"
  shows "CreateJWSSignature lib rnd payload (Some priv) = Return ((token, None), rnd')
       \<and> VerifySignature lib token target (Some resolve) = Return (PtrToStruct m, True, None)"
proof
  show "CreateJWSSignature lib rnd payload (Some priv) = Return ((token, None), rnd')"
    by (simp add: CreateJWSSignature_def signer sign serialize)
next
  show "VerifySignature lib token target (Some resolve) = Return (PtrToStruct m, True, None)"
    by (simp add: VerifySignature_def parse payload unmarshal sender lookup verify)
qed

text \<open>
  The scenario of the specification: device 7 of \<open>pub1\<close> signs its message, a subscriber
  whose lookup knows the device opens it.
\<close>

theorem signed_round_trip_witness:
  "CreateJWSSignature toy_library [4, 9, 2, 6] payload7 (Some pub1PrivateKey)
     = Return ((token7, None), [9, 2, 6])
   \<and> VerifySignature toy_library token7 target7 (Some resolver) = Return (message7, True, None)"
proof -
  have a: "jose_NewSigner toy_library ''ES256'' (Some pub1PrivateKey)
             = (Some (Signer ''ES256'' (Some pub1PrivateKey)), None)"
    by code_simp
  have b: "Signer_Sign toy_library (Signer ''ES256'' (Some pub1PrivateKey)) [4, 9, 2, 6] payload7
             = ((Some (JSONWebSignature ''ES256'' payload7 ''IIIIII-IIIII''), None), [9, 2, 6])"
    by code_simp
  have c: "JWS_CompactSerialize toy_library (JSONWebSignature ''ES256'' payload7 ''IIIIII-IIIII'')
             = (token7, None)"
    by code_simp
  have d: "jose_ParseSigned toy_library token7
             = (Some (JSONWebSignature ''ES256'' payload7 ''IIIIII-IIIII''), None)"
    by code_simp
  have e: "JWS_UnsafePayloadWithoutVerification toy_library
             (JSONWebSignature ''ES256'' payload7 ''IIIIII-IIIII'') = payload7"
    by code_simp
  have f: "JWS_Verify toy_library (JSONWebSignature ''ES256'' payload7 ''IIIIII-IIIII'')
             (Some pub1PublicKey) = (payload7, None)"
    by code_simp
  have g: "json_Unmarshal toy_library payload7 target7
             = (PtrToStruct [(''Sender'', GoString ''zoneA/pub1/dev7''), (''Value'', GoString ''42'')],
                None)"
    by code_simp
  have h: "map_of [(''Sender'', GoString ''zoneA/pub1/dev7''), (''Value'', GoString ''42'')] ''Sender''
             = Some (GoString ''zoneA/pub1/dev7'')"
    by simp
  have i: "''zoneA/pub1/dev7'' \<noteq> ''''"
    by simp
  have j: "resolver ''zoneA/pub1/dev7'' = Some pub1PublicKey"
    by (simp add: resolver_def)
  show ?thesis
    using signed_round_trip [where resolve = resolver, OF a b c d e f g h i j]
    by (simp add: message7_def)
qed

subsection \<open>The flag of a signed message without a sender field\<close>

text \<open>
  C2. Once a token has parsed as a signed token, the flag returned should be true
  whatever happens next; in particular for a message whose object has neither a sender nor
  an address. The code answers otherwise: the token below parses as a signed token, its
  payload unmarshals into a struct that has only a field \<open>Value\<close>, and
  \<^verbatim>\<open>VerifySignature\<close> returns the error of the missing fields with the flag false. Every
  other return after the parse has the flag true.
\<close>

theorem signed_without_sender_fields:
  "jose_ParseSigned toy_library tokenV
     = (Some (JSONWebSignature ''ES256'' payloadV ''IIIIII-IIIII''), None)
   \<and> VerifySignature toy_library tokenV targetV (Some resolver)
     = Return (PtrToStruct [(''Value'', GoString ''42'')], False,
         Some ''VerifySender: object doesn't have a Sender or Address field'')"
  by code_simp

subsection \<open>Signing without a key\<close>

text \<open>
  C3, as stated, fails: signing should fail with an error when the key is absent and
  never return an empty token, yet \<^verbatim>\<open>CreateEcdsaSignature\<close> with a nil key returns the
  empty string, its only result.
\<close>

theorem sign_nil_key_counterexample:
  "CreateEcdsaSignature toy_library [4, 9, 2, 6] payload7 None = ('''', [4, 9, 2, 6])"
  by code_simp

text \<open>
  C3, amended. \<^verbatim>\<open>CreateEcdsaSignature\<close> has no error result: with a nil key it returns the
  empty string and leaves the random source alone, and when \<^verbatim>\<open>ecdsa.Sign\<close> fails it returns
  the empty string. \<^verbatim>\<open>CreateJWSSignature\<close>, once it has a signer, returns the empty string
  together with the error when the signer's \<^verbatim>\<open>Sign\<close> fails.
\<close>

theorem sign_failures:
  "CreateEcdsaSignature lib rnd payload None = ('''', rnd)
   \<and> (\<forall>key r s err rnd'.
         ecdsa_Sign lib rnd key (sha256_Sum256 lib payload) = ((r, s, Some err), rnd')
         \<longrightarrow> CreateEcdsaSignature lib rnd payload (Some key) = ('''', rnd'))
   \<and> (\<forall>privateKey joseSigner nerr signedObject err rnd'.
         jose_NewSigner lib ''ES256'' privateKey = (Some joseSigner, nerr)
         \<and> Signer_Sign lib joseSigner rnd payload = ((signedObject, Some err), rnd')
         \<longrightarrow> CreateJWSSignature lib rnd payload privateKey = Return (('''', Some err), rnd'))"
  by (auto simp: CreateEcdsaSignature_def CreateJWSSignature_def split: option.splits)

text \<open>
  Both failures happen: the random source is exhausted, and the signing key is on the
  wrong curve for ES256.
\<close>

theorem sign_failures_witness:
  "CreateEcdsaSignature toy_library [] payload7 (Some pub1PrivateKey) = ('''', [])
   \<and> CreateJWSSignature toy_library [4, 9, 2, 6] payload7 (Some p384PrivateKey)
       = Return (('''', Some ''square/go-jose: expected 256 bit key''), [4, 9, 2, 6])"
proof -
  have a: "ecdsa_Sign toy_library [] pub1PrivateKey (sha256_Sum256 toy_library payload7)
             = ((0, 0, Some ''EOF''), [])"
    by code_simp
  have b: "jose_NewSigner toy_library ''ES256'' (Some p384PrivateKey)
             = (Some (Signer ''ES256'' (Some p384PrivateKey)), None)"
    by code_simp
  have c: "Signer_Sign toy_library (Signer ''ES256'' (Some p384PrivateKey)) [4, 9, 2, 6] payload7
             = ((None, Some ''square/go-jose: expected 256 bit key''), [4, 9, 2, 6])"
    by code_simp
  from a have "CreateEcdsaSignature toy_library [] payload7 (Some pub1PrivateKey) = ('''', [])"
    using sign_failures [of toy_library "[]" payload7] by blast
  moreover from b c
  have "CreateJWSSignature toy_library [4, 9, 2, 6] payload7 (Some p384PrivateKey)
       = Return (('''', Some ''square/go-jose: expected 256 bit key''), [4, 9, 2, 6])"
    using sign_failures [of toy_library "[4, 9, 2, 6]" payload7] by blast
  ultimately show ?thesis by simp
qed

subsection \<open>The two ways decryption does not succeed\<close>

text \<open>
  C4, as stated, fails: a text that is no encrypted token should come back unchanged,
  flagged as not encrypted, with no error. The text comes back unchanged and flagged as not
  encrypted, but the parse error comes with it.
\<close>

theorem decrypt_plain_text_counterexample:
  "DecryptMessage toy_library ''hello'' (Some pub2PrivateKey)
     = Return (False, ''hello'', Some ''square/go-jose: compact JWE format must have five parts'')"
  by code_simp

text \<open>
  C4, amended. \<^verbatim>\<open>DecryptMessage\<close> tells the two failures apart by its flag: when the text
  does not parse as an encrypted token it returns the flag false, the text unchanged and
  the parser's error; when the text parses, it returns the flag true with what the
  decryption returns, so a failed decryption is the flag true with the decryption's error.
\<close>

theorem decrypt_failure_modes:
  "(\<forall>decrypter err.
       jose_ParseEncrypted lib serialized = (decrypter, Some err)
       \<longrightarrow> DecryptMessage lib serialized privateKey = Return (False, serialized, Some err))
   \<and> (\<forall>decrypter dmessage err.
       jose_ParseEncrypted lib serialized = (Some decrypter, None)
       \<and> JWE_Decrypt lib decrypter privateKey = (dmessage, err)
       \<longrightarrow> DecryptMessage lib serialized privateKey = Return (True, dmessage, err))"
  by (auto simp: DecryptMessage_def split: option.splits)

text \<open>
  A plain payload, a token opened with the wrong private key, and the same token opened
  with the right one.
\<close>

theorem decrypt_failure_modes_witness:
  "DecryptMessage toy_library payload7 (Some pub1PrivateKey)
     = Return (False, payload7, Some ''square/go-jose: compact JWE format must have five parts'')
   \<and> DecryptMessage toy_library wireU (Some pub1PrivateKey)
     = Return (True, '''', Some ''square/go-jose: error in cryptographic primitive'')
   \<and> DecryptMessage toy_library wireU (Some pub2PrivateKey) = Return (True, payload7, None)"
proof -
  have a: "jose_ParseEncrypted toy_library payload7
             = (None, Some ''square/go-jose: compact JWE format must have five parts'')"
    by code_simp
  have b: "jose_ParseEncrypted toy_library wireU
             = (Some (JSONWebEncryption ''ECDH-ES'' '''' ''IIII'' (rev payload7) ''II''), None)"
    by code_simp
  have c: "JWE_Decrypt toy_library (JSONWebEncryption ''ECDH-ES'' '''' ''IIII'' (rev payload7) ''II'')
             (Some pub1PrivateKey) = ('''', Some ''square/go-jose: error in cryptographic primitive'')"
    by code_simp
  have d: "JWE_Decrypt toy_library (JSONWebEncryption ''ECDH-ES'' '''' ''IIII'' (rev payload7) ''II'')
             (Some pub2PrivateKey) = (payload7, None)"
    by code_simp
  from a have "DecryptMessage toy_library payload7 (Some pub1PrivateKey)
     = Return (False, payload7, Some ''square/go-jose: compact JWE format must have five parts'')"
    using decrypt_failure_modes [of toy_library payload7 "Some pub1PrivateKey"] by blast
  moreover from b c have "DecryptMessage toy_library wireU (Some pub1PrivateKey)
     = Return (True, '''', Some ''square/go-jose: error in cryptographic primitive'')"
    using decrypt_failure_modes [of toy_library wireU "Some pub1PrivateKey"] by blast
  moreover from b d have "DecryptMessage toy_library wireU (Some pub2PrivateKey)
     = Return (True, payload7, None)"
    using decrypt_failure_modes [of toy_library wireU "Some pub2PrivateKey"] by blast
  ultimately show ?thesis by simp
qed

subsection \<open>Sign, then encrypt\<close>

text \<open>
  C5. When a signed and encrypted message is published, the signature is made first and
  over the plain payload, and the encryption is applied afterwards to the signed token:
  with signing on, the signer's \<^verbatim>\<open>Sign\<close> receives the payload and the random source as the
  world has it, the encrypter's \<^verbatim>\<open>Encrypt\<close> receives the serialised signed token and the
  random source the signing left, and what goes to the transport is the serialisation of
  that encryption.
\<close>

theorem sign_then_encrypt:
  assumes signing_on: "signMessages signer"
    and bus: "messenger signer = Some m"
    and new_signer: "jose_NewSigner lib ''ES256'' (signingKey signer) = (Some joseSigner, nerr)"
    and sign: "Signer_Sign lib joseSigner (rand_Reader w) payload = ((Some signedObject, None), rnd')"
    and serialize: "JWS_CompactSerialize lib signedObject = (token, None)"
    and new_encrypter:
      "jose_NewEncrypter lib ''A128CBC-HS256'' ''ECDH-ES'' publicKey = (Some encrypter, None)"
    and encrypt: "Encrypter_Encrypt lib encrypter rnd' token = ((Some jwe, None), rnd'')"
    and serialize': "JWE_CompactSerialize lib jwe = (wire, serr)"
  shows "PublishEncrypted lib signer w address retained payload publicKey
           = Return (Publish m address retained wire,
                     w\<lparr>rand_Reader := rnd'',
                       transport := transport w @ [(address, retained, wire)]\<rparr>)"
proof -
  have "CreateJWSSignature lib (rand_Reader w) payload (signingKey signer)
          = Return ((token, None), rnd')"
    by (simp add: CreateJWSSignature_def new_signer sign serialize)
  moreover have "EncryptMessage lib rnd' token publicKey = Return ((wire, None), rnd'')"
    by (simp add: EncryptMessage_def new_encrypter encrypt serialize')
  ultimately show ?thesis
    by (simp add: PublishEncrypted_def messenger_Publish_def signing_on bus)
qed

text \<open>
  The scenario: \<open>pub1\<close> publishes the message of device 7 encrypted for \<open>pub2\<close>. The
  signature takes the random byte 4, the encryption the byte 9.
\<close>

theorem sign_then_encrypt_witness:
  "PublishEncrypted toy_library
     (NewMessageSigner True (Some resolver) (Some quiet_messenger) (Some pub1PrivateKey))
     world0 ''zoneA/pub1/dev7/value'' False payload7 (Some pub2PublicKey)
   = Return (None, world0\<lparr>rand_Reader := [2, 6],
                     transport := [(''zoneA/pub1/dev7/value'', False, wire7)]\<rparr>)"
proof -
  let ?signer = "NewMessageSigner True (Some resolver) (Some quiet_messenger) (Some pub1PrivateKey)"
  have a: "signMessages ?signer"
    by (simp add: NewMessageSigner_def)
  have b: "messenger ?signer = Some quiet_messenger"
    by (simp add: NewMessageSigner_def)
  have c: "jose_NewSigner toy_library ''ES256'' (signingKey ?signer)
             = (Some (Signer ''ES256'' (Some pub1PrivateKey)), None)"
    by code_simp
  have d: "Signer_Sign toy_library (Signer ''ES256'' (Some pub1PrivateKey)) (rand_Reader world0) payload7
             = ((Some (JSONWebSignature ''ES256'' payload7 ''IIIIII-IIIII''), None), [9, 2, 6])"
    by code_simp
  have e: "JWS_CompactSerialize toy_library (JSONWebSignature ''ES256'' payload7 ''IIIIII-IIIII'')
             = (token7, None)"
    by code_simp
  have f: "jose_NewEncrypter toy_library ''A128CBC-HS256'' ''ECDH-ES'' (Some pub2PublicKey)
             = (Some (Encrypter ''A128CBC-HS256'' ''ECDH-ES'' (Some pub2PublicKey)), None)"
    by code_simp
  have g: "Encrypter_Encrypt toy_library (Encrypter ''A128CBC-HS256'' ''ECDH-ES'' (Some pub2PublicKey))
             [9, 2, 6] token7
             = ((Some (JSONWebEncryption ''ECDH-ES'' '''' ''IIIIIIIII'' (rev token7) ''II''), None), [2, 6])"
    by code_simp
  have h: "JWE_CompactSerialize toy_library
             (JSONWebEncryption ''ECDH-ES'' '''' ''IIIIIIIII'' (rev token7) ''II'') = (wire7, None)"
    by code_simp
  show ?thesis
    using sign_then_encrypt [OF a b c d e f g h, of "''zoneA/pub1/dev7/value''" False]
    by (simp add: quiet_messenger_def world0_def)
qed

subsection \<open>Publishing after a failure\<close>

text \<open>
  C6. An error of the signing or of the encryption inside a publish operation should come
  back to the caller, and nothing unsigned or unencrypted should be published as if all
  had gone well. The code answers otherwise, three times. \<^verbatim>\<open>PublishSigned\<close> with a signing
  key that ES256 refuses logs the error, publishes the empty message and returns the
  transport's nil error. \<^verbatim>\<open>PublishEncrypted\<close> with the same key encrypts the empty message,
  publishes it and returns nil. \<^verbatim>\<open>PublishEncrypted\<close> with a good signing key and a
  recipient key that is not on the curve publishes the signed token unencrypted and returns
  nil.
\<close>

theorem publish_after_failure:
  "PublishSigned toy_library
     (NewMessageSigner True (Some resolver) (Some quiet_messenger) (Some p384PrivateKey))
     world0 ''zoneA/pub1/dev7/value'' False payload7
   = Return (None,
       world0\<lparr>transport := [(''zoneA/pub1/dev7/value'', False, '''')],
              logrus := [''Publisher.publishMessage: Error signing message for address ''
                           @ ''zoneA/pub1/dev7/value'' @ '': ''
                           @ ''square/go-jose: expected 256 bit key'']\<rparr>)
   \<and> PublishEncrypted toy_library
     (NewMessageSigner True (Some resolver) (Some quiet_messenger) (Some p384PrivateKey))
     world0 ''zoneA/pub1/dev7/value'' False payload7 (Some pub2PublicKey)
   = Return (None,
       world0\<lparr>rand_Reader := [9, 2, 6],
              transport := [(''zoneA/pub1/dev7/value'', False, ''ECDH-ES..IIII..II'')]\<rparr>)
   \<and> PublishEncrypted toy_library
     (NewMessageSigner True (Some resolver) (Some quiet_messenger) (Some pub1PrivateKey))
     world0 ''zoneA/pub1/dev7/value'' False payload7 (Some offCurvePublicKey)
   = Return (None,
       world0\<lparr>rand_Reader := [9, 2, 6],
              transport := [(''zoneA/pub1/dev7/value'', False, token7)]\<rparr>)"
  by code_simp

subsection \<open>What the publish operations put on the wire\<close>

text \<open>
  C7, as stated, fails: no configuration of the signer should produce an encrypted token
  whose content is not signed. A signer made with signing off does: what
  \<^verbatim>\<open>PublishEncrypted\<close> hands to the transport decrypts to the plain payload, and the plain
  payload is not a signed token.
\<close>

theorem encrypted_unsigned_counterexample:
  "PublishEncrypted toy_library
     (NewMessageSigner False (Some resolver) (Some quiet_messenger) (Some pub1PrivateKey))
     world0 ''zoneA/pub1/dev7/value'' False payload7 (Some pub2PublicKey)
   = Return (None, world0\<lparr>rand_Reader := [9, 2, 6],
                     transport := [(''zoneA/pub1/dev7/value'', False, wireU)]\<rparr>)
   \<and> DecryptMessage toy_library wireU (Some pub2PrivateKey) = Return (True, payload7, None)
   \<and> VerifySignature toy_library payload7 target7 (Some resolver) = Return (message7, False, None)"
  by code_simp

text \<open>
  C7, amended. What a publish operation hands to the transport follows from the signer's
  flag, when the signing and the encryption it asks for succeed: \<^verbatim>\<open>PublishSigned\<close>
  publishes the plain payload with signing off and the signed token with signing on;
  \<^verbatim>\<open>PublishEncrypted\<close> publishes the encryption of the signed token with signing on and
  the encryption of the plain payload, a fourth state, with signing off.
\<close>

theorem published_envelopes:
  "(\<not> signMessages signer \<and> messenger signer = Some m
      \<longrightarrow> PublishSigned lib signer w address retained payload
          = Return (Publish m address retained payload,
              w\<lparr>transport := transport w @ [(address, retained, payload)]\<rparr>))
   \<and> (\<forall>token rnd'.
        signMessages signer \<and> messenger signer = Some m
        \<and> CreateJWSSignature lib (rand_Reader w) payload (signingKey signer)
            = Return ((token, None), rnd')
      \<longrightarrow> PublishSigned lib signer w address retained payload
          = Return (Publish m address retained token,
              w\<lparr>rand_Reader := rnd', transport := transport w @ [(address, retained, token)]\<rparr>))
   \<and> (\<forall>token rnd' wire rnd''.
        signMessages signer \<and> messenger signer = Some m
        \<and> CreateJWSSignature lib (rand_Reader w) payload (signingKey signer)
            = Return ((token, None), rnd')
        \<and> EncryptMessage lib rnd' token publicKey = Return ((wire, None), rnd'')
      \<longrightarrow> PublishEncrypted lib signer w address retained payload publicKey
          = Return (Publish m address retained wire,
              w\<lparr>rand_Reader := rnd'', transport := transport w @ [(address, retained, wire)]\<rparr>))
   \<and> (\<forall>wire rnd'.
        \<not> signMessages signer \<and> messenger signer = Some m
        \<and> EncryptMessage lib (rand_Reader w) payload publicKey = Return ((wire, None), rnd')
      \<longrightarrow> PublishEncrypted lib signer w address retained payload publicKey
          = Return (Publish m address retained wire,
              w\<lparr>rand_Reader := rnd', transport := transport w @ [(address, retained, wire)]\<rparr>))"
  by (simp add: PublishSigned_def PublishEncrypted_def messenger_Publish_def)

text \<open>The four states, on the scenario's payload.\<close>

theorem published_envelopes_witness:
  "PublishSigned toy_library
     (NewMessageSigner False (Some resolver) (Some quiet_messenger) (Some pub1PrivateKey))
     world0 ''zoneA/pub1/dev7/value'' False payload7
   = Return (None, world0\<lparr>transport := [(''zoneA/pub1/dev7/value'', False, payload7)]\<rparr>)
   \<and> PublishSigned toy_library
     (NewMessageSigner True (Some resolver) (Some quiet_messenger) (Some pub1PrivateKey))
     world0 ''zoneA/pub1/dev7/value'' False payload7
   = Return (None, world0\<lparr>rand_Reader := [9, 2, 6],
                     transport := [(''zoneA/pub1/dev7/value'', False, token7)]\<rparr>)
   \<and> PublishEncrypted toy_library
     (NewMessageSigner True (Some resolver) (Some quiet_messenger) (Some pub1PrivateKey))
     world0 ''zoneA/pub1/dev7/value'' False payload7 (Some pub2PublicKey)
   = Return (None, world0\<lparr>rand_Reader := [2, 6],
                     transport := [(''zoneA/pub1/dev7/value'', False, wire7)]\<rparr>)
   \<and> PublishEncrypted toy_library
     (NewMessageSigner False (Some resolver) (Some quiet_messenger) (Some pub1PrivateKey))
     world0 ''zoneA/pub1/dev7/value'' False payload7 (Some pub2PublicKey)
   = Return (None, world0\<lparr>rand_Reader := [9, 2, 6],
                     transport := [(''zoneA/pub1/dev7/value'', False, wireU)]\<rparr>)"
proof -
  let ?plain = "NewMessageSigner False (Some resolver) (Some quiet_messenger) (Some pub1PrivateKey)"
  let ?signing = "NewMessageSigner True (Some resolver) (Some quiet_messenger) (Some pub1PrivateKey)"
  let ?address = "''zoneA/pub1/dev7/value''"
  have unsigned: "\<not> signMessages ?plain \<and> messenger ?plain = Some quiet_messenger"
    by (simp add: NewMessageSigner_def)
  have signed: "signMessages ?signing \<and> messenger ?signing = Some quiet_messenger"
    by (simp add: NewMessageSigner_def)
  have sign: "CreateJWSSignature toy_library (rand_Reader world0) payload7 (signingKey ?signing)
                = Return ((token7, None), [9, 2, 6])"
    by code_simp
  have encrypt: "EncryptMessage toy_library [9, 2, 6] token7 (Some pub2PublicKey)
                = Return ((wire7, None), [2, 6])"
    by code_simp
  have encrypt': "EncryptMessage toy_library (rand_Reader world0) payload7 (Some pub2PublicKey)
                = Return ((wireU, None), [9, 2, 6])"
    by code_simp
  have quiet: "Publish quiet_messenger ?address False wire = None" for wire
    by (simp add: quiet_messenger_def)
  have "PublishSigned toy_library ?plain world0 ?address False payload7
          = Return (None, world0\<lparr>transport := [(?address, False, payload7)]\<rparr>)"
    using unsigned
      published_envelopes [of ?plain quiet_messenger toy_library world0 ?address False payload7]
    by (simp add: quiet world0_def)
  moreover have "PublishSigned toy_library ?signing world0 ?address False payload7
          = Return (None, world0\<lparr>rand_Reader := [9, 2, 6],
                            transport := [(?address, False, token7)]\<rparr>)"
    using signed sign
      published_envelopes [of ?signing quiet_messenger toy_library world0 ?address False payload7]
    by (simp add: quiet world0_def)
  moreover have "PublishEncrypted toy_library ?signing world0 ?address False payload7 (Some pub2PublicKey)
          = Return (None, world0\<lparr>rand_Reader := [2, 6],
                            transport := [(?address, False, wire7)]\<rparr>)"
    using signed sign encrypt
      published_envelopes [of ?signing quiet_messenger toy_library world0 ?address False payload7
        "Some pub2PublicKey"]
    by (simp add: quiet world0_def)
  moreover have "PublishEncrypted toy_library ?plain world0 ?address False payload7 (Some pub2PublicKey)
          = Return (None, world0\<lparr>rand_Reader := [9, 2, 6],
                            transport := [(?address, False, wireU)]\<rparr>)"
    using unsigned encrypt'
      published_envelopes [of ?plain quiet_messenger toy_library world0 ?address False payload7
        "Some pub2PublicKey"]
    by (simp add: quiet world0_def)
  ultimately show ?thesis by simp
qed

subsection \<open>Which field names the sender\<close>

text \<open>
  C8, as stated, fails: an empty sender should fall back to the address. A message whose
  \<open>Sender\<close> field is there and empty and whose \<open>Address\<close> field names a known publisher
  is not resolved through the address: the signed token of such a message is answered with
  the error of the missing sender.
\<close>

theorem empty_sender_counterexample:
  "VerifySignature toy_library tokenA targetA (Some resolver)
     = Return (PtrToStruct [(''Address'', GoString ''zoneA/pub1/dev7''), (''Sender'', GoString ''''),
                            (''Value'', GoString ''42'')],
               True, Some ''VerifySender: Missing sender information in message'')"
  by code_simp

text \<open>
  C8, amended. The fallback goes by the object's type, not by the field's content. For a
  token that parses as signed and a payload that unmarshals into a struct: when the struct
  has a field \<open>Sender\<close>, the sender is that field and \<open>Address\<close> is not read; the field
  \<open>Address\<close> is read only when the struct has no field \<open>Sender\<close>; when it has neither,
  the operation fails with the error of the missing fields; and a field that was read and
  holds the empty string fails with the error of the missing sender.
\<close>

theorem sender_resolution:
  assumes parse: "jose_ParseSigned lib rawMessage = (Some jwsSignature, None)"
    and unmarshal: "json_Unmarshal lib (JWS_UnsafePayloadWithoutVerification lib jwsSignature) object
                      = (PtrToStruct fs, None)"
  shows "(\<forall>reflSender. map_of fs ''Sender'' = Some reflSender
            \<longrightarrow> VerifySignature lib rawMessage object lookup
                = verify_for_sender lib jwsSignature (PtrToStruct fs) lookup reflSender)
       \<and> (\<forall>reflSender. map_of fs ''Sender'' = None \<and> map_of fs ''Address'' = Some reflSender
            \<longrightarrow> VerifySignature lib rawMessage object lookup
                = verify_for_sender lib jwsSignature (PtrToStruct fs) lookup reflSender)
       \<and> (map_of fs ''Sender'' = None \<and> map_of fs ''Address'' = None
            \<longrightarrow> (\<exists>isSigned. VerifySignature lib rawMessage object lookup
                  = Return (PtrToStruct fs, isSigned,
                      Some ''VerifySender: object doesn't have a Sender or Address field'')))
       \<and> verify_for_sender lib jwsSignature (PtrToStruct fs) lookup (GoString '''')
           = Return (PtrToStruct fs, True,
               Some ''VerifySender: Missing sender information in message'')"
  by (auto simp: VerifySignature_def verify_for_sender_def parse unmarshal Let_def
           split: option.splits prod.splits)

text \<open>
  A message with a sender, a message with an empty sender and an address, a message of a
  type with an address and no sender, and a message of a type with neither.
\<close>

theorem sender_resolution_witness:
  "VerifySignature toy_library token7 target7 (Some resolver) = Return (message7, True, None)
   \<and> VerifySignature toy_library tokenA targetA (Some resolver)
     = Return (PtrToStruct [(''Address'', GoString ''zoneA/pub1/dev7''), (''Sender'', GoString ''''),
                            (''Value'', GoString ''42'')],
               True, Some ''VerifySender: Missing sender information in message'')
   \<and> VerifySignature toy_library tokenA targetD (Some resolver)
     = Return (PtrToStruct [(''Address'', GoString ''zoneA/pub1/dev7''), (''Value'', GoString ''42'')],
               True, None)
   \<and> (\<exists>isSigned. VerifySignature toy_library tokenV targetV (Some resolver)
     = Return (PtrToStruct [(''Value'', GoString ''42'')], isSigned,
               Some ''VerifySender: object doesn't have a Sender or Address field''))"
proof -
  let ?jws7 = "JSONWebSignature ''ES256'' payload7 ''IIIIII-IIIII''"
  let ?jwsA = "JSONWebSignature ''ES256'' payloadA ''IIIIII-IIIII''"
  let ?jwsV = "JSONWebSignature ''ES256'' payloadV ''IIIIII-IIIII''"
  let ?m7 = "[(''Sender'', GoString ''zoneA/pub1/dev7''), (''Value'', GoString ''42'')]"
  let ?mA = "[(''Address'', GoString ''zoneA/pub1/dev7''), (''Sender'', GoString ''''),
              (''Value'', GoString ''42'')]"
  let ?mD = "[(''Address'', GoString ''zoneA/pub1/dev7''), (''Value'', GoString ''42'')]"
  let ?mV = "[(''Value'', GoString ''42'')]"
  have p7: "jose_ParseSigned toy_library token7 = (Some ?jws7, None)"
    by code_simp
  have pA: "jose_ParseSigned toy_library tokenA = (Some ?jwsA, None)"
    by code_simp
  have pV: "jose_ParseSigned toy_library tokenV = (Some ?jwsV, None)"
    by code_simp
  have u7: "json_Unmarshal toy_library (JWS_UnsafePayloadWithoutVerification toy_library ?jws7) target7
              = (PtrToStruct ?m7, None)"
    by code_simp
  have uA: "json_Unmarshal toy_library (JWS_UnsafePayloadWithoutVerification toy_library ?jwsA) targetA
              = (PtrToStruct ?mA, None)"
    by code_simp
  have uD: "json_Unmarshal toy_library (JWS_UnsafePayloadWithoutVerification toy_library ?jwsA) targetD
              = (PtrToStruct ?mD, None)"
    by code_simp
  have uV: "json_Unmarshal toy_library (JWS_UnsafePayloadWithoutVerification toy_library ?jwsV) targetV
              = (PtrToStruct ?mV, None)"
    by code_simp
  have v7: "verify_for_sender toy_library ?jws7 (PtrToStruct ?m7) (Some resolver)
              (GoString ''zoneA/pub1/dev7'') = Return (message7, True, None)"
    by code_simp
  have vD: "verify_for_sender toy_library ?jwsA (PtrToStruct ?mD) (Some resolver)
              (GoString ''zoneA/pub1/dev7'') = Return (PtrToStruct ?mD, True, None)"
    by code_simp
  have "VerifySignature toy_library token7 target7 (Some resolver) = Return (message7, True, None)"
    using sender_resolution [OF p7 u7, of "Some resolver"] v7 by simp
  moreover have "VerifySignature toy_library tokenA targetA (Some resolver)
     = Return (PtrToStruct ?mA, True, Some ''VerifySender: Missing sender information in message'')"
    using sender_resolution [OF pA uA, of "Some resolver"] by simp
  moreover have "VerifySignature toy_library tokenA targetD (Some resolver)
     = Return (PtrToStruct ?mD, True, None)"
    using sender_resolution [OF pA uD, of "Some resolver"] vD by simp
  moreover have "\<exists>isSigned. VerifySignature toy_library tokenV targetV (Some resolver)
     = Return (PtrToStruct ?mV, isSigned,
               Some ''VerifySender: object doesn't have a Sender or Address field'')"
    using sender_resolution [OF pV uV, of "Some resolver"] by simp
  ultimately show ?thesis by blast
qed

subsection \<open>The random source\<close>

text \<open>
  C9, as stated, fails: two calls of a codec operation with the same arguments should give
  the same result. \<^verbatim>\<open>CreateEcdsaSignature\<close> passes the process-wide random source to
  \<^verbatim>\<open>ecdsa.Sign\<close>: the same payload under the same key gets two different signatures when
  the source delivers a 4 and when it delivers a 5.
\<close>

theorem random_source_counterexample:
  "CreateEcdsaSignature toy_library [4, 9, 2, 6] payload7 (Some pub1PrivateKey)
     = (''IIIIII-IIIII'', [9, 2, 6])
   \<and> CreateEcdsaSignature toy_library [5, 9, 2, 6] payload7 (Some pub1PrivateKey)
     = (''II-IIIIII'', [9, 2, 6])
   \<and> fst (CreateEcdsaSignature toy_library [4, 9, 2, 6] payload7 (Some pub1PrivateKey))
     \<noteq> fst (CreateEcdsaSignature toy_library [5, 9, 2, 6] payload7 (Some pub1PrivateKey))"
  by code_simp

text \<open>
  C9, amended. The codec operations keep no state of their own; the random source is
  their only input besides their arguments, and it reaches the result only through the
  library's signing or encrypting primitive. Two calls of \<^verbatim>\<open>CreateEcdsaSignature\<close>,
  \<^verbatim>\<open>CreateJWSSignature\<close> or \<^verbatim>\<open>EncryptMessage\<close> with the same arguments give the same result
  whenever that primitive returns the same for the two states of the source, and
  \<^verbatim>\<open>CreateEcdsaSignature\<close> with a nil key gives the same result whatever the source.
\<close>

theorem random_source_only:
  "(fst (ecdsa_Sign lib rnd1 key (sha256_Sum256 lib payload))
      = fst (ecdsa_Sign lib rnd2 key (sha256_Sum256 lib payload))
    \<longrightarrow> fst (CreateEcdsaSignature lib rnd1 payload (Some key))
        = fst (CreateEcdsaSignature lib rnd2 payload (Some key)))
   \<and> fst (CreateEcdsaSignature lib rnd1 payload None) = fst (CreateEcdsaSignature lib rnd2 payload None)
   \<and> (\<forall>joseSigner nerr.
        jose_NewSigner lib ''ES256'' privateKey = (Some joseSigner, nerr)
        \<and> fst (Signer_Sign lib joseSigner rnd1 payload) = fst (Signer_Sign lib joseSigner rnd2 payload)
      \<longrightarrow> map_outcome fst (CreateJWSSignature lib rnd1 payload privateKey)
          = map_outcome fst (CreateJWSSignature lib rnd2 payload privateKey))
   \<and> (\<forall>encrypter.
        jose_NewEncrypter lib ''A128CBC-HS256'' ''ECDH-ES'' publicKey = (Some encrypter, None)
        \<and> fst (Encrypter_Encrypt lib encrypter rnd1 payload)
            = fst (Encrypter_Encrypt lib encrypter rnd2 payload)
      \<longrightarrow> map_outcome fst (EncryptMessage lib rnd1 payload publicKey)
          = map_outcome fst (EncryptMessage lib rnd2 payload publicKey))"
proof (intro conjI allI impI)
  assume "fst (ecdsa_Sign lib rnd1 key (sha256_Sum256 lib payload))
            = fst (ecdsa_Sign lib rnd2 key (sha256_Sum256 lib payload))"
  then show "fst (CreateEcdsaSignature lib rnd1 payload (Some key))
               = fst (CreateEcdsaSignature lib rnd2 payload (Some key))"
    by (cases "ecdsa_Sign lib rnd1 key (sha256_Sum256 lib payload)";
        cases "ecdsa_Sign lib rnd2 key (sha256_Sum256 lib payload)")
       (auto simp: CreateEcdsaSignature_def Let_def split: option.splits prod.splits)
next
  show "fst (CreateEcdsaSignature lib rnd1 payload None) = fst (CreateEcdsaSignature lib rnd2 payload None)"
    by (simp add: CreateEcdsaSignature_def)
next
  fix joseSigner nerr
  assume "jose_NewSigner lib ''ES256'' privateKey = (Some joseSigner, nerr)
        \<and> fst (Signer_Sign lib joseSigner rnd1 payload) = fst (Signer_Sign lib joseSigner rnd2 payload)"
  then show "map_outcome fst (CreateJWSSignature lib rnd1 payload privateKey)
          = map_outcome fst (CreateJWSSignature lib rnd2 payload privateKey)"
    by (cases "Signer_Sign lib joseSigner rnd1 payload"; cases "Signer_Sign lib joseSigner rnd2 payload")
       (auto simp: CreateJWSSignature_def split: option.splits prod.splits)
next
  fix encrypter
  assume "jose_NewEncrypter lib ''A128CBC-HS256'' ''ECDH-ES'' publicKey = (Some encrypter, None)
        \<and> fst (Encrypter_Encrypt lib encrypter rnd1 payload)
            = fst (Encrypter_Encrypt lib encrypter rnd2 payload)"
  then show "map_outcome fst (EncryptMessage lib rnd1 payload publicKey)
          = map_outcome fst (EncryptMessage lib rnd2 payload publicKey)"
    by (cases "Encrypter_Encrypt lib encrypter rnd1 payload";
        cases "Encrypter_Encrypt lib encrypter rnd2 payload")
       (auto simp: EncryptMessage_def split: option.splits prod.splits)
qed

text \<open>Two states of the source that agree on the byte the primitive draws.\<close>

theorem random_source_only_witness:
  "fst (CreateEcdsaSignature toy_library [4, 9] payload7 (Some pub1PrivateKey))
     = fst (CreateEcdsaSignature toy_library [4, 2] payload7 (Some pub1PrivateKey))
   \<and> map_outcome fst (CreateJWSSignature toy_library [4, 9] payload7 (Some pub1PrivateKey))
     = map_outcome fst (CreateJWSSignature toy_library [4, 2] payload7 (Some pub1PrivateKey))
   \<and> map_outcome fst (EncryptMessage toy_library [4, 9] payload7 (Some pub2PublicKey))
     = map_outcome fst (EncryptMessage toy_library [4, 2] payload7 (Some pub2PublicKey))"
proof -
  have a: "fst (ecdsa_Sign toy_library [4, 9] pub1PrivateKey (sha256_Sum256 toy_library payload7))
             = fst (ecdsa_Sign toy_library [4, 2] pub1PrivateKey (sha256_Sum256 toy_library payload7))"
    by code_simp
  have b: "jose_NewSigner toy_library ''ES256'' (Some pub1PrivateKey)
             = (Some (Signer ''ES256'' (Some pub1PrivateKey)), None)"
    by code_simp
  have c: "fst (Signer_Sign toy_library (Signer ''ES256'' (Some pub1PrivateKey)) [4, 9] payload7)
             = fst (Signer_Sign toy_library (Signer ''ES256'' (Some pub1PrivateKey)) [4, 2] payload7)"
    by code_simp
  have d: "jose_NewEncrypter toy_library ''A128CBC-HS256'' ''ECDH-ES'' (Some pub2PublicKey)
             = (Some (Encrypter ''A128CBC-HS256'' ''ECDH-ES'' (Some pub2PublicKey)), None)"
    by code_simp
  have e: "fst (Encrypter_Encrypt toy_library (Encrypter ''A128CBC-HS256'' ''ECDH-ES'' (Some pub2PublicKey))
                  [4, 9] payload7)
             = fst (Encrypter_Encrypt toy_library (Encrypter ''A128CBC-HS256'' ''ECDH-ES'' (Some pub2PublicKey))
                  [4, 2] payload7)"
    by code_simp
  show ?thesis
    using a b c d e
      random_source_only [of toy_library "[4, 9]" pub1PrivateKey payload7 "[4, 2]"
        "Some pub1PrivateKey" "Some pub2PublicKey"]
    by blast
qed

subsection \<open>Verifying a detached signature\<close>



end
